theory Spec2Isabelle
  imports Complex_Main
begin

section \<open>Numbers, points and matrices\<close>

text \<open>
  JavaScript numbers of the Geometry and LayerGroup code are modelled as exact reals;
  the rounding error of double arithmetic is outside the model. A thrown \<open>Error\<close> is a
  value \<open>Inl\<close> of the result. \<open>NonNumeric\<close> is not an exception: it marks a run that
  goes on with \<open>undefined\<close>, \<open>null\<close>, \<open>NaN\<close> or an infinity where the model holds a
  real number (an array read or written beyond its end, a division by zero).
\<close>

datatype error = ZeroSliceSpacing | ZeroSizedContainer | TypeError | NonNumeric


text \<open>
  A quotient and a minimum as JavaScript computes them, where the divisor may be the
  zero \<open>+0\<close>.
\<close>

datatype jsnum = Finite real | PosInfinity | NegInfinity | NaN

definition js_div :: "real \<Rightarrow> real \<Rightarrow> jsnum" where
  "js_div a b =
     (if b \<noteq> 0 then Finite (a / b)
      else if 0 < a then PosInfinity else if a < 0 then NegInfinity else NaN)"

fun js_min :: "jsnum \<Rightarrow> jsnum \<Rightarrow> jsnum" where
  "js_min NaN b = NaN"
| "js_min a NaN = NaN"
| "js_min NegInfinity b = NegInfinity"
| "js_min a NegInfinity = NegInfinity"
| "js_min PosInfinity b = b"
| "js_min a PosInfinity = a"
| "js_min (Finite a) (Finite b) = Finite (min a b)"

text \<open>
  Modelled from the spec: the classes \<open>Point3D\<close>, \<open>Vector3D\<close> and \<open>Matrix33\<close> of the
  math package are not among the sources. A point and a vector have three real
  components; \<open>getDistance\<close> is the Euclidean distance, \<open>minus\<close> the difference vector,
  \<open>dotProduct\<close> the dot product. A matrix is given by its accessor \<open>get(i, j)\<close>, the
  entry of row \<open>i\<close> and column \<open>j\<close>, read for \<open>i, j < 3\<close>; \<open>multiplyVector3D\<close> is the
  product of a matrix and a vector,
  \<open>multiply\<close> the product of two matrices, \<open>getAbs\<close> the component-wise absolute
  value.
\<close>

record Point3D =
  getX :: real
  getY :: real
  getZ :: real

type_synonym Vector3D = Point3D

type_synonym Matrix33 = "nat \<Rightarrow> nat \<Rightarrow> real"

definition getDistance :: "Point3D \<Rightarrow> Point3D \<Rightarrow> real" where
  "getDistance p q = sqrt ((getX p - getX q)\<^sup>2 + (getY p - getY q)\<^sup>2 + (getZ p - getZ q)\<^sup>2)"

definition minus3D :: "Point3D \<Rightarrow> Point3D \<Rightarrow> Vector3D" where
  "minus3D p q = \<lparr>getX = getX p - getX q, getY = getY p - getY q, getZ = getZ p - getZ q\<rparr>"

definition dotProduct :: "Vector3D \<Rightarrow> Vector3D \<Rightarrow> real" where
  "dotProduct a b = getX a * getX b + getY a * getY b + getZ a * getZ b"

definition multiplyVector3D :: "Matrix33 \<Rightarrow> Point3D \<Rightarrow> Point3D" where
  "multiplyVector3D m v =
     \<lparr>getX = m 0 0 * getX v + m 0 1 * getY v + m 0 2 * getZ v,
      getY = m 1 0 * getX v + m 1 1 * getY v + m 1 2 * getZ v,
      getZ = m 2 0 * getX v + m 2 1 * getY v + m 2 2 * getZ v\<rparr>"

definition getIdentityMat33 :: Matrix33 where
  "getIdentityMat33 = (\<lambda>i j. if i = j then 1 else 0)"

definition multiply :: "Matrix33 \<Rightarrow> Matrix33 \<Rightarrow> Matrix33" where
  "multiply a b = (\<lambda>i j. a i 0 * b 0 j + a i 1 * b 1 j + a i 2 * b 2 j)"

definition getAbs :: "Matrix33 \<Rightarrow> Matrix33" where
  "getAbs m = (\<lambda>i j. \<bar>m i j\<bar>)"

text \<open>
  The remaining helpers of the math package are parameters of the model: the matrix
  inverse, the one-and-zeros simplification, and the similarity test with its
  tolerance \<open>BIG_EPSILON\<close>. Nothing is assumed about them.
\<close>

record mathLib =
  getInverse :: "Matrix33 \<Rightarrow> Matrix33"
  asOneAndZeros :: "Matrix33 \<Rightarrow> Matrix33"
  isSimilar :: "real \<Rightarrow> real \<Rightarrow> real \<Rightarrow> bool"
  BIG_EPSILON :: real

section \<open>Geometry (\<open>src/unnamed/part_002\<close>)\<close>

text \<open>
  The closure variables of the constructor are the fields of the state. Size, Spacing,
  Index and Point are the arrays of their values. \<open>getSize\<close> and \<open>getSpacing\<close> are
  modelled for the call without a view orientation, the only one the conversions make.
\<close>

record Geometry =
  origins :: "Point3D list"
  size_g :: "real list"
  spacing :: "real list"
  orientation :: Matrix33
  newOrigins :: bool

text \<open>The constructor: \<open>origins = [origin]\<close>, \<open>newOrigins = false\<close>.\<close>

definition newGeometry :: "Point3D \<Rightarrow> real list \<Rightarrow> real list \<Rightarrow> Matrix33 \<Rightarrow> Geometry" where
  "newGeometry origin sz sp orient =
     \<lparr>origins = [origin], size_g = sz, spacing = sp, orientation = orient, newOrigins = False\<rparr>"

text \<open>\<open>getOrigin\<close> returns \<open>origins[origins.length - 1]\<close>; \<open>None\<close> is \<open>undefined\<close>.\<close>

definition getOrigin :: "Geometry \<Rightarrow> Point3D option" where
  "getOrigin g = (if origins g = [] then None else Some (last (origins g)))"

datatype warning = VaryingSliceSpacing real nat

text \<open>
  The loop of \<open>getSliceGeometrySpacing\<close> over the adjacent pairs \<open>origins[i]\<close>,
  \<open>origins[i + 1]\<close>, with the variables \<open>spacing\<close> (\<open>None\<close> is \<open>null\<close>) and \<open>deltas\<close>.
\<close>

fun sliceSpacing_loop ::
  "mathLib \<Rightarrow> Matrix33 \<Rightarrow> Point3D list \<Rightarrow> real option \<Rightarrow> real list
     \<Rightarrow> error + (real option \<times> real list)" where
  "sliceSpacing_loop L m (o1 # o2 # os) sp deltas =
     (let origin1 = multiplyVector3D m o1;
          origin2 = multiplyVector3D m o2;
          diff = \<bar>getZ origin1 - getZ origin2\<bar>
      in if diff = 0 then Inl ZeroSliceSpacing
         else (case sp of
                 None \<Rightarrow> sliceSpacing_loop L m (o2 # os) (Some diff) deltas
               | Some s \<Rightarrow>
                   if \<not> isSimilar L s diff (BIG_EPSILON L)
                   then sliceSpacing_loop L m (o2 # os) sp (deltas @ [\<bar>s - diff\<bar>])
                   else sliceSpacing_loop L m (o2 # os) sp deltas))"
| "sliceSpacing_loop L m os sp deltas = Inr (sp, deltas)"

definition getSliceGeometrySpacing ::
  "mathLib \<Rightarrow> Geometry \<Rightarrow> error + (real option \<times> warning list)" where
  "getSliceGeometrySpacing L g =
     (if length (origins g) = 1 then Inr (Some 1, [])
      else
        (case sliceSpacing_loop L (asOneAndZeros L (getInverse L (orientation g)))
                (origins g) None [] of
           Inl e \<Rightarrow> Inl e
         | Inr (sp, deltas) \<Rightarrow>
             Inr (sp,
               if deltas \<noteq> [] \<and> 1 / 10000 < sum_list deltas / real (length deltas)
               then [VaryingSliceSpacing (sum_list deltas / real (length deltas)) (length deltas)]
               else [])))"

text \<open>Array accesses \<open>values[i]\<close> and \<open>values[i] = v\<close>; a write at the end extends the array.\<close>

definition getAt :: "real list \<Rightarrow> nat \<Rightarrow> error + real" where
  "getAt vs i = (if i < length vs then Inr (vs ! i) else Inl NonNumeric)"

definition setAt :: "real list \<Rightarrow> nat \<Rightarrow> real \<Rightarrow> error + real list" where
  "setAt vs i v =
     (if i < length vs then Inr (vs[i := v])
      else if i = length vs then Inr (vs @ [v])
      else Inl NonNumeric)"

text \<open>
  \<open>getSpacing\<close> recomputes the slice spacing once after origins were appended and
  stores it. The warnings of the recomputation are those of
  \<open>getSliceGeometrySpacing\<close> and are not repeated in this result.
\<close>

definition getSpacing :: "mathLib \<Rightarrow> Geometry \<Rightarrow> error + (real list \<times> Geometry)" where
  "getSpacing L g =
     (if newOrigins g then
        (case getSliceGeometrySpacing L g of
           Inl e \<Rightarrow> Inl e
         | Inr (None, w) \<Rightarrow> Inl NonNumeric
         | Inr (Some s, w) \<Rightarrow>
             (case setAt (spacing g) 2 s of
                Inl e \<Rightarrow> Inl e
              | Inr vals \<Rightarrow> Inr (vals, g\<lparr>spacing := vals, newOrigins := False\<rparr>)))
      else Inr (spacing g, g))"

text \<open>
  \<open>getSliceIndex\<close>: the scan for the closest origin, then the sign of the dot product
  with \<open>(orientation.get(2, 0), orientation.get(2, 1), orientation.get(2, 2))\<close>.
  \<open>origins[0]\<close> of an empty list is \<open>undefined\<close>, whose distance cannot be taken.
\<close>

fun closest_loop :: "Point3D \<Rightarrow> Point3D list \<Rightarrow> nat \<Rightarrow> real \<Rightarrow> nat \<Rightarrow> nat" where
  "closest_loop point [] i minDist closestSliceIndex = closestSliceIndex"
| "closest_loop point (oi # os) i minDist closestSliceIndex =
     (if getDistance point oi < minDist
      then closest_loop point os (Suc i) (getDistance point oi) i
      else closest_loop point os (Suc i) minDist closestSliceIndex)"

definition getNormal :: "Geometry \<Rightarrow> Vector3D" where
  "getNormal g =
     \<lparr>getX = orientation g 2 0, getY = orientation g 2 1, getZ = orientation g 2 2\<rparr>"

definition getSliceIndex :: "Geometry \<Rightarrow> Point3D \<Rightarrow> error + nat" where
  "getSliceIndex g point =
     (case origins g of
        [] \<Rightarrow> Inl TypeError
      | o0 # _ \<Rightarrow>
          (let closestSliceIndex = closest_loop point (origins g) 0 (getDistance point o0) 0;
               closestOrigin = origins g ! closestSliceIndex;
               pointDir = minus3D point closestOrigin;
               dotProd = dotProduct (getNormal g) pointDir
           in Inr (if dotProd < 0 then closestSliceIndex + 1 else closestSliceIndex)))"

text \<open>
  \<open>origins.splice(index, 0, origin)\<close>: a negative index counts from the end, and the
  position is clamped to the array.
\<close>

definition splice_insert :: "'a list \<Rightarrow> int \<Rightarrow> 'a \<Rightarrow> 'a list" where
  "splice_insert xs index v =
     (let n = int (length xs);
          start = (if index < 0 then max (n + index) 0 else min index n)
      in take (nat start) xs @ v # drop (nat start) xs)"

definition appendOrigin :: "Geometry \<Rightarrow> Point3D \<Rightarrow> int \<Rightarrow> error + Geometry" where
  "appendOrigin g origin index =
     (case getAt (size_g g) 2 of
        Inl e \<Rightarrow> Inl e
      | Inr n \<Rightarrow>
          Inr (g\<lparr>newOrigins := True,
                 origins := splice_insert (origins g) index origin,
                 size_g := (size_g g)[2 := n + 1]\<rparr>))"

definition appendFrame :: "Geometry \<Rightarrow> error + Geometry" where
  "appendFrame g =
     (case getAt (size_g g) 2 of
        Inl e \<Rightarrow> Inl e
      | Inr n \<Rightarrow> Inr (g\<lparr>size_g := (size_g g)[2 := n + 1]\<rparr>))"

text \<open>
  Modelled from the spec: \<open>equals\<close> of points, Sizes and Spacings is not among the
  sources; it compares the values pairwise, here the equality of the records and lists.

  \<open>equals\<close> of Geometries: \<open>rhs\<close> may be \<open>null\<close> (\<open>None\<close>). The conjunction is
  evaluated from the left and stops at the first false operand.
\<close>

definition equals ::
  "mathLib \<Rightarrow> Geometry \<Rightarrow> Geometry option \<Rightarrow> error + (bool \<times> Geometry \<times> Geometry option)" where
  "equals L g rhs =
     (case rhs of
        None \<Rightarrow> Inr (False, g, None)
      | Some r \<Rightarrow>
          (case (getOrigin g, getOrigin r) of
             (Some a, Some b) \<Rightarrow>
               if a \<noteq> b then Inr (False, g, Some r)
               else if size_g g \<noteq> size_g r then Inr (False, g, Some r)
               else
                 (case getSpacing L g of
                    Inl e \<Rightarrow> Inl e
                  | Inr (s1, g') \<Rightarrow>
                      (case getSpacing L r of
                         Inl e \<Rightarrow> Inl e
                       | Inr (s2, r') \<Rightarrow> Inr (s1 = s2, g', Some r')))
           | _ \<Rightarrow> Inl TypeError))"





section \<open>First Geometry revision of \<open>src/unnamed/part_003\<close>\<close>

text \<open>
  This revision has the same origin list and orientation; its \<open>getSliceIndex\<close> differs
  from the one above in the test of the dot product only.
\<close>

definition getSliceIndex_rev1 :: "Geometry \<Rightarrow> Point3D \<Rightarrow> error + nat" where
  "getSliceIndex_rev1 g point =
     (case origins g of
        [] \<Rightarrow> Inl TypeError
      | o0 # _ \<Rightarrow>
          (let closestSliceIndex = closest_loop point (origins g) 0 (getDistance point o0) 0;
               dotProd = dotProduct (getNormal g) (minus3D point (origins g ! closestSliceIndex))
           in Inr (if 0 < dotProd then closestSliceIndex + 1 else closestSliceIndex)))"

section \<open>Linear offsets (third Geometry revision of \<open>src/unnamed/part_003\<close>)\<close>

text \<open>
  Indices, sizes and offsets of this part are JavaScript numbers holding integers; they
  are modelled as \<open>int\<close>. On integers with a nonzero divisor \<open>Math.floor(a / b)\<close> is
  \<open>a div b\<close>. A result \<open>None\<close> stands for a run that leaves the integers (a stride that
  the Size does not define, or a division by a zero stride, which JavaScript answers
  with \<open>NaN\<close> or an infinity), never for a thrown exception.
\<close>

text \<open>
  Modelled from the spec: the Size class with \<open>getDimSize\<close> is not among the sources.
  The spec gives the cumulative stride of a dimension: \<open>stride[0] = 1\<close>,
  \<open>stride[d] = stride[d-1] * size[d-1]\<close>. Beyond the dimensions of the Size nothing
  is specified, hence \<open>None\<close>.
\<close>

fun getDimSize :: "int list \<Rightarrow> nat \<Rightarrow> int option" where
  "getDimSize sz 0 = Some 1"
| "getDimSize sz (Suc d) =
     (if d < length sz
      then (case getDimSize sz d of None \<Rightarrow> None | Some s \<Rightarrow> Some (s * sz ! d))
      else None)"

text \<open>
  \<open>indexToOffset\<close>: \<open>for (i = 0; i < index.length(); ++i) offset += index.get(i) * size.getDimSize(i)\<close>.
\<close>

fun indexToOffset_loop :: "int list \<Rightarrow> int list \<Rightarrow> nat \<Rightarrow> nat \<Rightarrow> int \<Rightarrow> int option" where
  "indexToOffset_loop sz index i 0 offset = Some offset"
| "indexToOffset_loop sz index i (Suc todo) offset =
     (case getDimSize sz i of
        None \<Rightarrow> None
      | Some dimSize \<Rightarrow> indexToOffset_loop sz index (Suc i) todo (offset + index ! i * dimSize))"

definition indexToOffset :: "int list \<Rightarrow> int list \<Rightarrow> int option" where
  "indexToOffset sz index = indexToOffset_loop sz index 0 (length index) 0"

text \<open>
  \<open>offsetToIndex\<close>: the loop \<open>for (i = size.length() - 1; i > 0; --i)\<close> writes
  \<open>values[i] = Math.floor(off / dimSize)\<close> and keeps the remainder in \<open>off\<close>; then
  \<open>values[0] = off\<close>. The array \<open>new Array(size.length())\<close> starts with holes that the
  loop and the last assignment overwrite; the model starts from zeros. For a Size
  without dimensions the assignment \<open>values[0] = off\<close> extends the empty array.
\<close>

fun offsetToIndex_loop :: "int list \<Rightarrow> nat \<Rightarrow> int \<Rightarrow> int list \<Rightarrow> (int \<times> int list) option" where
  "offsetToIndex_loop sz 0 off vals = Some (off, vals)"
| "offsetToIndex_loop sz (Suc i) off vals =
     (case getDimSize sz (Suc i) of
        None \<Rightarrow> None
      | Some dimSize \<Rightarrow>
          if dimSize = 0 then None
          else offsetToIndex_loop sz i (off - (off div dimSize) * dimSize)
                 (vals[Suc i := off div dimSize]))"

definition offsetToIndex :: "int list \<Rightarrow> int \<Rightarrow> int list option" where
  "offsetToIndex sz offset =
     (case offsetToIndex_loop sz (length sz - 1) offset (replicate (length sz) 0) of
        None \<Rightarrow> None
      | Some (off, vals) \<Rightarrow> Some (if vals = [] then [off] else vals[0 := off]))"

text \<open>An index is in bounds when it has one component per dimension, each within the Size.\<close>

definition inBoundsIndex :: "int list \<Rightarrow> int list \<Rightarrow> bool" where
  "inBoundsIndex sz x \<longleftrightarrow>
     length x = length sz \<and> list_all2 (\<lambda>xd sd. 0 \<le> xd \<and> xd < sd) x sz"

text \<open>The cumulative stride written as a product, and the dot product with the strides.\<close>

definition stride :: "int list \<Rightarrow> nat \<Rightarrow> int" where
  "stride sz d = prod_list (take d sz)"

definition dotStrides :: "int list \<Rightarrow> int list \<Rightarrow> nat \<Rightarrow> int" where
  "dotStrides sz x n = (\<Sum>d < n. x ! d * stride sz d)"

section \<open>Orientation helpers and LayerGroup (\<open>src/unnamed/part_001\<close>)\<close>

definition getViewOrientation :: "mathLib \<Rightarrow> Matrix33 \<Rightarrow> Matrix33 option \<Rightarrow> Matrix33" where
  "getViewOrientation L imageOrientation targetOrientation =
     getAbs (case targetOrientation of
               None \<Rightarrow> getIdentityMat33
             | Some t \<Rightarrow> multiply (getInverse L (asOneAndZeros L imageOrientation)) t)"

text \<open>
  \<open>getScaledOffset\<close> on \<open>{x, y}\<close> pairs. A zero component of the new scale makes the
  quotient an infinity or \<open>NaN\<close>, and so the difference with the center.
\<close>

definition getScaledOffset ::
  "real \<times> real \<Rightarrow> real \<times> real \<Rightarrow> real \<times> real \<Rightarrow> real \<times> real \<Rightarrow> error + (real \<times> real)" where
  "getScaledOffset offset scale newScale center =
     (let indexCenter =
            ((fst center - fst offset) * fst scale, (snd center - snd offset) * snd scale)
      in if fst newScale = 0 \<or> snd newScale = 0 then Inl NonNumeric
         else Inr (fst center - fst indexCenter / fst newScale,
                   snd center - snd indexCenter / snd newScale))"

text \<open>The relation of the comment in \<open>getScaledOffset\<close>: \<open>worldPoint = indexPoint / scale + offset\<close>.\<close>

definition worldPoint :: "real \<Rightarrow> real \<Rightarrow> real \<Rightarrow> jsnum" where
  "worldPoint indexPoint scale offset =
     (case js_div indexPoint scale of Finite q \<Rightarrow> Finite (q + offset) | other \<Rightarrow> other)"

text \<open>
  The layer classes and the view controller that the group calls are not among the
  sources. A layer is given by what its methods answer: whether it is a
  \<open>ViewLayer\<close>, its id, its image world size, the origins of its view controller
  (\<open>getOrigin()\<close>, and \<open>getOrigin(position)\<close> which may be \<open>undefined\<close>),
  \<open>canSetPosition\<close>, and the booleans returned by \<open>setBaseOffset\<close> and
  \<open>setCurrentPosition\<close>. These methods are taken to return normally.
\<close>

record Layer =
  isViewLayer :: bool
  getId :: string
  getImageWorldSize :: "real \<times> real"
  vcOrigin0 :: Point3D
  vcOrigin :: "real list \<Rightarrow> Point3D option"
  canSetPosition :: "real list \<Rightarrow> bool"
  setBaseOffset :: "Vector3D \<Rightarrow> Vector3D \<Rightarrow> bool"
  setCurrentPosition :: "real list \<Rightarrow> real list \<Rightarrow> bool"

record LayerGroup =
  offsetWidth :: real
  offsetHeight :: real
  layers :: "Layer list"
  showCrosshair :: bool
  currentPosition :: "real list option"

record positionEvent =
  valueIndex :: "real list"
  valuePosition :: "real list"
  srclayerid :: string

text \<open>The calls a pass makes on the layers and on the crosshair, in order, with their results.\<close>

datatype call =
    RemoveListeners nat
  | ShowCrosshairDiv "real list"
  | SetBaseOffset nat Vector3D Vector3D bool
  | SetCurrentPosition nat bool
  | Draw nat
  | AddListeners nat

text \<open>
  One turn of the loop over the layers, for layer \<open>l\<close> at position \<open>i\<close>, with the
  variables \<open>baseViewLayerOrigin0\<close> and \<open>baseViewLayerOrigin\<close> (\<open>None\<close> is \<open>null\<close> or
  \<open>undefined\<close>). Calling \<open>minus\<close> on a null \<open>baseViewLayerOrigin0\<close> would raise.
\<close>

definition baseOffsetStep ::
  "real list \<Rightarrow> Layer \<Rightarrow> nat \<Rightarrow> Point3D option \<Rightarrow> Point3D option
     \<Rightarrow> error + (Point3D option \<times> Point3D option \<times> call list \<times> bool)" where
  "baseOffsetStep position l i baseViewLayerOrigin0 baseViewLayerOrigin =
     (if isViewLayer l then
        (case baseViewLayerOrigin of
           None \<Rightarrow> Inr (Some (vcOrigin0 l), vcOrigin l position, [], False)
         | Some base \<Rightarrow>
             (case (canSetPosition l position, vcOrigin l position) of
                (True, Some origin) \<Rightarrow>
                  (case baseViewLayerOrigin0 of
                     None \<Rightarrow> Inl TypeError
                   | Some base0 \<Rightarrow>
                       (let scrollOffset = minus3D base0 (vcOrigin0 l);
                            planeOffset = minus3D base origin;
                            hasSetOffset = setBaseOffset l scrollOffset planeOffset
                        in Inr (baseViewLayerOrigin0, baseViewLayerOrigin,
                                [SetBaseOffset i scrollOffset planeOffset hasSetOffset],
                                hasSetOffset)))
              | _ \<Rightarrow> Inr (baseViewLayerOrigin0, baseViewLayerOrigin, [], False)))
      else Inr (baseViewLayerOrigin0, baseViewLayerOrigin, [], False))"

definition layerStep ::
  "real list \<Rightarrow> real list \<Rightarrow> string \<Rightarrow> Layer \<Rightarrow> nat \<Rightarrow> Point3D option \<Rightarrow> Point3D option
     \<Rightarrow> error + (Point3D option \<times> Point3D option \<times> call list)" where
  "layerStep position index src l i baseViewLayerOrigin0 baseViewLayerOrigin =
     (case baseOffsetStep position l i baseViewLayerOrigin0 baseViewLayerOrigin of
        Inl e \<Rightarrow> Inl e
      | Inr (base0', base', offsetCalls, hasSetOffset) \<Rightarrow>
          (let hasSetPos = (getId l \<noteq> src \<and> setCurrentPosition l position index);
               positionCalls = (if getId l \<noteq> src then [SetCurrentPosition i hasSetPos] else []);
               drawCalls = (if \<not> hasSetPos \<and> hasSetOffset then [Draw i] else [])
           in Inr (base0', base', offsetCalls @ positionCalls @ drawCalls)))"

fun layers_loop ::
  "real list \<Rightarrow> real list \<Rightarrow> string \<Rightarrow> Layer list \<Rightarrow> nat \<Rightarrow> Point3D option \<Rightarrow> Point3D option
     \<Rightarrow> error + call list" where
  "layers_loop position index src [] i base0 base = Inr []"
| "layers_loop position index src (l # ls) i base0 base =
     (case layerStep position index src l i base0 base of
        Inl e \<Rightarrow> Inl e
      | Inr (base0', base', calls) \<Rightarrow>
          (case layers_loop position index src ls (Suc i) base0' base' of
             Inl e \<Rightarrow> Inl e
           | Inr rest \<Rightarrow> Inr (calls @ rest)))"

text \<open>The positions of the view layers, for the loops that pause and restart the listeners.\<close>

definition viewLayerIndices :: "Layer list \<Rightarrow> nat list" where
  "viewLayerIndices ls = filter (\<lambda>j. isViewLayer (ls ! j)) [0..<length ls]"

text \<open>
  \<open>#showCrosshairDiv(position)\<close> takes the first layer as base,
  \<open>this.#layers[0].getViewController()\<close>: on a group without layers \<open>layers[0]\<close> is
  \<open>undefined\<close> and the call raises. The lines it then removes from and adds to the
  container are recorded as one call.
\<close>

definition showCrosshairDiv :: "LayerGroup \<Rightarrow> real list \<Rightarrow> error + call list" where
  "showCrosshairDiv G position =
     (case layers G of
        [] \<Rightarrow> Inl TypeError
      | layer0 # _ \<Rightarrow> Inr [ShowCrosshairDiv position])"

text \<open>
  \<open>updateLayersToPositionChange\<close>: the listeners are paused, the position stored, the
  crosshair drawn if shown, the layers updated, the listeners restarted.
\<close>

definition updateLayersToPositionChange ::
  "LayerGroup \<Rightarrow> positionEvent \<Rightarrow> error + (LayerGroup \<times> call list)" where
  "updateLayersToPositionChange G event =
     (let index = valueIndex event;
          position = valuePosition event;
          paused = map RemoveListeners (viewLayerIndices (layers G))
      in case (if showCrosshair G then showCrosshairDiv G position else Inr []) of
           Inl e \<Rightarrow> Inl e
         | Inr crosshair \<Rightarrow>
             (case layers_loop position index (srclayerid event) (layers G) 0 None None of
                Inl e \<Rightarrow> Inl e
              | Inr calls \<Rightarrow>
                  Inr (G\<lparr>currentPosition := Some position\<rparr>,
                       paused @ crosshair @ calls
                         @ map AddListeners (viewLayerIndices (layers G)))))"

text \<open>\<open>getMaxSize\<close> and \<open>calculateFitScale\<close>; \<open>None\<close> is \<open>undefined\<close>.\<close>

fun getMaxSize_loop :: "Layer list \<Rightarrow> real \<times> real \<Rightarrow> real \<times> real" where
  "getMaxSize_loop [] maxSize = maxSize"
| "getMaxSize_loop (l # ls) maxSize =
     (if isViewLayer l then
        getMaxSize_loop ls
          (if fst maxSize < fst (getImageWorldSize l) then fst (getImageWorldSize l) else fst maxSize,
           if snd maxSize < snd (getImageWorldSize l) then snd (getImageWorldSize l) else snd maxSize)
      else getMaxSize_loop ls maxSize)"

definition getMaxSize :: "LayerGroup \<Rightarrow> (real \<times> real) option" where
  "getMaxSize G =
     (let maxSize = getMaxSize_loop (layers G) (0, 0)
      in if fst maxSize = 0 \<and> snd maxSize = 0 then None else Some maxSize)"

definition calculateFitScale :: "LayerGroup \<Rightarrow> error + jsnum option" where
  "calculateFitScale G =
     (if offsetWidth G = 0 \<and> offsetHeight G = 0 then Inl ZeroSizedContainer
      else
        (case getMaxSize G of
           None \<Rightarrow> Inr None
         | Some maxSize \<Rightarrow>
             Inr (Some (js_min (js_div (offsetWidth G) (fst maxSize))
                               (js_div (offsetHeight G) (snd maxSize))))))"

section \<open>Vocabulary of the claims\<close>

text \<open>The simplified inverse orientation and the distance of two adjacent origins along its z axis.\<close>

definition orientation2 :: "mathLib \<Rightarrow> Geometry \<Rightarrow> Matrix33" where
  "orientation2 L g = asOneAndZeros L (getInverse L (orientation g))"

definition zDiff :: "Matrix33 \<Rightarrow> Point3D \<Rightarrow> Point3D \<Rightarrow> real" where
  "zDiff m o1 o2 = \<bar>getZ (multiplyVector3D m o1) - getZ (multiplyVector3D m o2)\<bar>"

definition sliceDiff :: "mathLib \<Rightarrow> Geometry \<Rightarrow> nat \<Rightarrow> real" where
  "sliceDiff L g i = zDiff (orientation2 L g) (origins g ! i) (origins g ! Suc i)"

text \<open>The third column of a matrix, the slice normal of the specification.\<close>

definition thirdColumn :: "Matrix33 \<Rightarrow> Vector3D" where
  "thirdColumn m = \<lparr>getX = m 0 2, getY = m 1 2, getZ = m 2 2\<rparr>"

text \<open>
  Position \<open>c\<close> holds an origin nearest to the point, and no earlier origin is as near.
\<close>

definition firstNearest :: "Point3D \<Rightarrow> Point3D list \<Rightarrow> nat \<Rightarrow> bool" where
  "firstNearest point os c \<longleftrightarrow>
     c < length os
     \<and> (\<forall>j < length os. getDistance point (os ! c) \<le> getDistance point (os ! j))
     \<and> (\<forall>j < c. getDistance point (os ! c) < getDistance point (os ! j))"

text \<open>The largest real-world width and height over the view layers.\<close>

definition maxRealWidth :: "LayerGroup \<Rightarrow> real" where
  "maxRealWidth G = Max (set (map (\<lambda>l. fst (getImageWorldSize l)) (filter isViewLayer (layers G))))"

definition maxRealHeight :: "LayerGroup \<Rightarrow> real" where
  "maxRealHeight G = Max (set (map (\<lambda>l. snd (getImageWorldSize l)) (filter isViewLayer (layers G))))"

text \<open>The layer a call is made on, and the rule of the forced redraw for layer \<open>i\<close>.\<close>

fun callLayer :: "call \<Rightarrow> nat option" where
  "callLayer (RemoveListeners j) = Some j"
| "callLayer (ShowCrosshairDiv p) = None"
| "callLayer (SetBaseOffset j so po r) = Some j"
| "callLayer (SetCurrentPosition j r) = Some j"
| "callLayer (Draw j) = Some j"
| "callLayer (AddListeners j) = Some j"

definition redrawRule :: "nat \<Rightarrow> call list \<Rightarrow> bool" where
  "redrawRule i tr \<longleftrightarrow>
     (Draw i \<in> set tr \<longleftrightarrow>
        (\<exists>so po. SetBaseOffset i so po True \<in> set tr) \<and> SetCurrentPosition i True \<notin> set tr)
     \<and> \<not> (SetCurrentPosition i True \<in> set tr \<and> SetCurrentPosition i False \<in> set tr)"

section \<open>Concrete inputs\<close>

definition L0 :: mathLib where
  "L0 = \<lparr>getInverse = (\<lambda>m. m), asOneAndZeros = (\<lambda>m. m),
         isSimilar = (\<lambda>a b tol. \<bar>a - b\<bar> < tol), BIG_EPSILON = 1 / 10000\<rparr>"

definition pt :: "real \<Rightarrow> real \<Rightarrow> real \<Rightarrow> Point3D" where
  "pt a b c = \<lparr>getX = a, getY = b, getZ = c\<rparr>"

text \<open>The Geometry of the specification's scenario.\<close>

definition g0 :: Geometry where
  "g0 = newGeometry (pt 0 0 0) [4, 4, 2, 1] [1, 1, 1] getIdentityMat33"

text \<open>Two origins, the second appended, the slice spacing not yet recomputed.\<close>

definition g2 :: Geometry where
  "g2 = \<lparr>origins = [pt 0 0 2, pt 0 0 0], size_g = [4, 4, 2, 1], spacing = [1, 1, 1],
         orientation = getIdentityMat33, newOrigins = True\<rparr>"


text \<open>Three origins two apart along z.\<close>

definition g3 :: Geometry where
  "g3 = \<lparr>origins = [pt 0 0 0, pt 0 0 2, pt 0 0 4], size_g = [4, 4, 3, 1], spacing = [1, 1, 1],
         orientation = getIdentityMat33, newOrigins = True\<rparr>"

text \<open>Two Geometries with the same first origin and different last origins.\<close>

definition gA :: Geometry where
  "gA = \<lparr>origins = [pt 0 0 0, pt 0 0 1], size_g = [1, 1, 2], spacing = [1, 1, 1],
         orientation = getIdentityMat33, newOrigins = False\<rparr>"

definition gB :: Geometry where
  "gB = \<lparr>origins = [pt 0 0 0, pt 0 0 (- 1)], size_g = [1, 1, 2], spacing = [1, 1, 1],
         orientation = getIdentityMat33, newOrigins = False\<rparr>"

text \<open>
  A layer whose view controller has one origin everywhere and accepts every position,
  with fixed answers of \<open>setBaseOffset\<close> and \<open>setCurrentPosition\<close>.
\<close>

definition mkLayer :: "bool \<Rightarrow> string \<Rightarrow> real \<times> real \<Rightarrow> Point3D \<Rightarrow> bool \<Rightarrow> bool \<Rightarrow> Layer" where
  "mkLayer isView ident worldSize origin baseAnswer positionAnswer =
     \<lparr>isViewLayer = isView, getId = ident, getImageWorldSize = worldSize,
      vcOrigin0 = origin, vcOrigin = (\<lambda>p. Some origin), canSetPosition = (\<lambda>p. True),
      setBaseOffset = (\<lambda>so po. baseAnswer), setCurrentPosition = (\<lambda>p i. positionAnswer)\<rparr>"

text \<open>
  A group in a container of 200 by 100 with two view layers and a draw layer; the
  second view layer cannot move to the position.
\<close>

definition G1 :: LayerGroup where
  "G1 = \<lparr>offsetWidth = 200, offsetHeight = 100,
         layers = [mkLayer True ''a'' (100, 100) (pt 0 0 0) True True,
                   mkLayer True ''b'' (50, 80) (pt 0 0 1) True False,
                   mkLayer False ''c'' (0, 0) (pt 0 0 0) False True],
         showCrosshair = False, currentPosition = None\<rparr>"

definition ev1 :: positionEvent where
  "ev1 = \<lparr>valueIndex = [1, 1, 0], valuePosition = [1, 1, 2], srclayerid = ''a''\<rparr>"

text \<open>The same group in a container of width 0 and height 100.\<close>

definition Gz :: LayerGroup where
  "Gz = G1\<lparr>offsetWidth := 0\<rparr>"

text \<open>The same group with the crosshair shown.\<close>

definition G1x :: LayerGroup where
  "G1x = G1\<lparr>showCrosshair := True\<rparr>"

text \<open>
  A Geometry whose orientation has the rows \<open>(1,0,0)\<close>, \<open>(0,0,1)\<close>, \<open>(0,-1,0)\<close>: its
  third row is \<open>(0,-1,0)\<close> and its third column \<open>(0,1,0)\<close>.
\<close>

definition gR :: Geometry where
  "gR = newGeometry (pt 0 0 0) [4, 4, 1, 1] [1, 1, 1]
          (\<lambda>i j. if i = 0 \<and> j = 0 then 1 else if i = 1 \<and> j = 2 then 1
                  else if i = 2 \<and> j = 1 then - 1 else 0)"

section \<open>Proofs: index and world coordinates\<close>







section \<open>Proofs: linear offsets\<close>

lemma getDimSize_stride: "d \<le> length sz \<Longrightarrow> getDimSize sz d = Some (stride sz d)"
proof (induction d)
  case 0
  show ?case by (simp add: stride_def)
next
  case (Suc d)
  then show ?case by (simp add: stride_def take_Suc_conv_app_nth)
qed

lemma stride_Suc: "d < length sz \<Longrightarrow> stride sz (Suc d) = stride sz d * sz ! d"
  by (simp add: stride_def take_Suc_conv_app_nth)

lemma indexToOffset_loop_sum:
  "i + todo \<le> length sz \<Longrightarrow>
   indexToOffset_loop sz x i todo acc = Some (acc + (\<Sum>d = i..<i + todo. x ! d * stride sz d))"
proof (induction todo arbitrary: i acc)
  case 0
  show ?case by simp
next
  case (Suc todo)
  have "getDimSize sz i = Some (stride sz i)"
    using Suc.prems by (simp add: getDimSize_stride)
  moreover have "indexToOffset_loop sz x (Suc i) todo (acc + x ! i * stride sz i)
      = Some (acc + x ! i * stride sz i + (\<Sum>d = Suc i..<Suc i + todo. x ! d * stride sz d))"
    using Suc.prems by (intro Suc.IH) simp
  ultimately show ?case
    by (simp add: sum.atLeast_Suc_lessThan add.assoc)
qed

lemma indexToOffset_dot:
  "length x \<le> length sz \<Longrightarrow> indexToOffset sz x = Some (dotStrides sz x (length x))"
  using indexToOffset_loop_sum [of 0 "length x" sz x 0]
  by (simp add: indexToOffset_def dotStrides_def atLeast0LessThan)

lemma inBounds_nth:
  "inBoundsIndex sz x \<Longrightarrow> d < length sz \<Longrightarrow> 0 \<le> x ! d \<and> x ! d < sz ! d"
  by (simp add: inBoundsIndex_def list_all2_conv_all_nth)

lemma dotStrides_Suc: "dotStrides sz x (Suc n) = dotStrides sz x n + x ! n * stride sz n"
  by (simp add: dotStrides_def)

lemma dotStrides_bounds:
  "inBoundsIndex sz x \<Longrightarrow> n \<le> length sz \<Longrightarrow>
   0 < stride sz n \<and> 0 \<le> dotStrides sz x n \<and> dotStrides sz x n < stride sz n"
proof (induction n)
  case 0
  show ?case by (simp add: stride_def dotStrides_def)
next
  case (Suc n)
  then have ih: "0 < stride sz n" "0 \<le> dotStrides sz x n" "dotStrides sz x n < stride sz n"
    by simp_all
  have xb: "0 \<le> x ! n" "x ! n < sz ! n"
    using inBounds_nth [of sz x n] Suc.prems by simp_all
  have st: "stride sz (Suc n) = stride sz n * sz ! n"
    using Suc.prems by (simp add: stride_Suc)
  have "x ! n + 1 \<le> sz ! n" using xb by simp
  then have "(x ! n + 1) * stride sz n \<le> sz ! n * stride sz n"
    using ih(1) by (simp add: mult_right_mono)
  then have up: "dotStrides sz x n + x ! n * stride sz n < stride sz n * sz ! n"
    using ih(3) by (simp add: algebra_simps)
  have pos: "0 < stride sz n * sz ! n" using ih(1) xb by simp
  have "0 \<le> x ! n * stride sz n" using xb ih(1) by simp
  then show ?case using up pos ih(2) by (simp add: dotStrides_Suc st)
qed

lemma div_step:
  fixes r q s :: int
  assumes "0 \<le> r" "r < s"
  shows "(r + q * s) div s = q" "(r + q * s) - ((r + q * s) div s) * s = r"
proof -
  show "(r + q * s) div s = q" using assms by (simp add: div_pos_pos_trivial)
  then show "(r + q * s) - ((r + q * s) div s) * s = r" by simp
qed

lemma offsetToIndex_loop_dot:
  "inBoundsIndex sz x \<Longrightarrow> i < length sz \<Longrightarrow> length vals = length sz \<Longrightarrow>
   \<exists>vals'. offsetToIndex_loop sz i (dotStrides sz x (Suc i)) vals = Some (x ! 0, vals')
     \<and> length vals' = length sz
     \<and> (\<forall>j. 1 \<le> j \<and> j \<le> i \<longrightarrow> vals' ! j = x ! j)
     \<and> (\<forall>j. i < j \<longrightarrow> vals' ! j = vals ! j)"
proof (induction i arbitrary: vals)
  case 0
  show ?case using 0 by (simp add: dotStrides_def stride_def)
next
  case (Suc i)
  let ?s = "stride sz (Suc i)"
  let ?r = "dotStrides sz x (Suc i)"
  have b: "0 < ?s" "0 \<le> ?r" "?r < ?s"
    using dotStrides_bounds [of sz x "Suc i"] Suc.prems by simp_all
  have g: "getDimSize sz (Suc i) = Some ?s"
    using Suc.prems by (intro getDimSize_stride) simp
  have off: "dotStrides sz x (Suc (Suc i)) = ?r + x ! Suc i * ?s"
    by (rule dotStrides_Suc)
  have d: "(?r + x ! Suc i * ?s) div ?s = x ! Suc i"
    and m: "(?r + x ! Suc i * ?s) - ((?r + x ! Suc i * ?s) div ?s) * ?s = ?r"
    using div_step [OF b(2) b(3)] by simp_all
  from Suc.prems have "i < length sz" "length (vals[Suc i := x ! Suc i]) = length sz"
    by simp_all
  from Suc.IH [OF Suc.prems(1) this]
  obtain vals' where v:
    "offsetToIndex_loop sz i ?r (vals[Suc i := x ! Suc i]) = Some (x ! 0, vals')"
    "length vals' = length sz"
    "\<forall>j. 1 \<le> j \<and> j \<le> i \<longrightarrow> vals' ! j = x ! j"
    "\<forall>j. i < j \<longrightarrow> vals' ! j = (vals[Suc i := x ! Suc i]) ! j"
    by blast
  have step: "offsetToIndex_loop sz (Suc i) (dotStrides sz x (Suc (Suc i))) vals
      = Some (x ! 0, vals')"
    using b(1) g v(1) by (simp add: off d m del: getDimSize.simps)
  have "vals' ! Suc i = x ! Suc i"
    using v(4) Suc.prems by simp
  then have lo: "\<forall>j. 1 \<le> j \<and> j \<le> Suc i \<longrightarrow> vals' ! j = x ! j"
    using v(3) by (auto simp: le_Suc_eq)
  have hi: "\<forall>j. Suc i < j \<longrightarrow> vals' ! j = vals ! j"
    using v(4) by simp
  show ?case using step v(2) lo hi by blast
qed

text \<open>
  Claim C2. For a Size with at least one dimension and every in-bounds index \<open>x\<close>,
  \<open>indexToOffset\<close> returns the dot product of the components of \<open>x\<close> with the
  cumulative strides, and \<open>offsetToIndex\<close> of that offset returns \<open>x\<close> exactly.
\<close>

theorem offsetToIndex_indexToOffset:
  assumes ne: "sz \<noteq> []" and ib: "inBoundsIndex sz x"
  shows "indexToOffset sz x = Some (dotStrides sz x (length sz))
       \<and> offsetToIndex sz (dotStrides sz x (length sz)) = Some x"
proof -
  have len: "length x = length sz" using ib by (simp add: inBoundsIndex_def)
  have fwd: "indexToOffset sz x = Some (dotStrides sz x (length sz))"
    using indexToOffset_dot [of x sz] len by simp
  obtain n where n: "length sz = Suc n" using ne by (cases sz) auto
  from offsetToIndex_loop_dot [OF ib, of n "replicate (length sz) 0"] n
  obtain vals' where v:
    "offsetToIndex_loop sz n (dotStrides sz x (Suc n)) (replicate (length sz) 0) = Some (x ! 0, vals')"
    "length vals' = length sz"
    "\<forall>j. 1 \<le> j \<and> j \<le> n \<longrightarrow> vals' ! j = x ! j"
    by auto
  have "vals'[0 := x ! 0] = x"
  proof (rule nth_equalityI)
    show "length (vals'[0 := x ! 0]) = length x" using v(2) len by simp
  next
    fix j assume "j < length (vals'[0 := x ! 0])"
    then have "j \<le> n" using v(2) n by simp
    then show "vals'[0 := x ! 0] ! j = x ! j"
      using v(2,3) n by (cases j) auto
  qed
  moreover have "vals' \<noteq> []" using v(2) n by auto
  ultimately have "offsetToIndex sz (dotStrides sz x (length sz)) = Some x"
    using v(1) n by (simp add: offsetToIndex_def)
  with fwd show ?thesis by simp
qed

text \<open>
  The scenario of the specification: Size \<open>(4,4,2,1)\<close>, index \<open>[1,1,1,0]\<close>, offset
  \<open>1 + 1*4 + 1*16 = 21\<close>.
\<close>

theorem offsetToIndex_indexToOffset_witness:
  "[4, 4, 2, 1] \<noteq> ([] :: int list) \<and> inBoundsIndex [4, 4, 2, 1] [1, 1, 1, 0]
   \<and> indexToOffset [4, 4, 2, 1] [1, 1, 1, 0] = Some 21
   \<and> offsetToIndex [4, 4, 2, 1] 21 = Some [1, 1, 1, 0]"
proof -
  have ne: "[4, 4, 2, 1] \<noteq> ([] :: int list)" by simp
  have ib: "inBoundsIndex [4, 4, 2, 1] [1, 1, 1, 0]" by (simp add: inBoundsIndex_def)
  have d: "dotStrides [4, 4, 2, 1] [1, 1, 1, 0] (length [4, 4, 2, 1 :: int]) = 21"
    by (simp add: dotStrides_def stride_def numeral_nat)
  show ?thesis
    using offsetToIndex_indexToOffset [OF ne ib] ne ib unfolding d by simp
qed

section \<open>Proofs: slice index\<close>

lemma closest_loop_inv:
  assumes "all = pre @ os" and "i = length pre" and "c < length all"
    and "minDist = getDistance p (all ! c)"
    and "\<forall>j<i. minDist \<le> getDistance p (all ! j)"
    and "\<forall>j<c. minDist < getDistance p (all ! j)"
  shows "firstNearest p all (closest_loop p os i minDist c)"
  using assms
proof (induction os arbitrary: pre i c minDist)
  case Nil
  then show ?case by (simp add: firstNearest_def)
next
  case (Cons a os)
  have ai: "all ! i = a" and il: "i < length all"
    using Cons.prems(1,2) by simp_all
  have split: "all = (pre @ [a]) @ os" "Suc i = length (pre @ [a])"
    using Cons.prems(1,2) by simp_all
  show ?case
  proof (cases "getDistance p a < minDist")
    case True
    have lo: "\<forall>j<Suc i. getDistance p a \<le> getDistance p (all ! j)"
      using True Cons.prems(5) ai by (auto simp: less_Suc_eq)
    have st: "\<forall>j<i. getDistance p a < getDistance p (all ! j)"
      using True Cons.prems(5) by fastforce
    have "firstNearest p all (closest_loop p os (Suc i) (getDistance p a) i)"
      using Cons.IH [OF split il _ _ st] lo ai by simp
    with True show ?thesis by simp
  next
    case False
    have lo: "\<forall>j<Suc i. minDist \<le> getDistance p (all ! j)"
      using False Cons.prems(5) ai by (auto simp: less_Suc_eq)
    have "firstNearest p all (closest_loop p os (Suc i) minDist c)"
      using Cons.IH [OF split Cons.prems(3,4) lo Cons.prems(6)] .
    with False show ?thesis by simp
  qed
qed

lemma closest_first:
  assumes "os \<noteq> []"
  shows "firstNearest p os (closest_loop p os 0 (getDistance p (hd os)) 0)"
proof -
  have "os = [] @ os" "0 = length ([] :: Point3D list)" "0 < length os"
    "getDistance p (hd os) = getDistance p (os ! 0)"
    using assms by (simp_all add: hd_conv_nth)
  then show ?thesis by (rule closest_loop_inv) simp_all
qed

text \<open>
  Claim C3, as amended. For a Geometry with at least one origin, both revisions of
  \<open>getSliceIndex\<close> find the first origin nearest to the point in the scan and return
  its position, either unchanged or incremented by exactly one. For an orientation
  whose third row equals its third column, the revision of part_002 returns the
  position plus one when the dot product of the third column (the slice normal) with
  the vector from that origin to the point is negative, and the position itself
  otherwise; the first revision of part_003 returns the position plus one when that
  dot product is positive, and the position itself otherwise.
\<close>

theorem getSliceIndex_nearest:
  assumes "origins g \<noteq> []"
  shows "\<exists>c. firstNearest p (origins g) c
      \<and> (getSliceIndex g p = Inr c \<or> getSliceIndex g p = Inr (c + 1))
      \<and> (getSliceIndex_rev1 g p = Inr c \<or> getSliceIndex_rev1 g p = Inr (c + 1))
      \<and> (orientation g 2 0 = orientation g 0 2 \<and> orientation g 2 1 = orientation g 1 2 \<longrightarrow>
            getSliceIndex g p =
              Inr (if dotProduct (thirdColumn (orientation g)) (minus3D p (origins g ! c)) < 0
                   then c + 1 else c)
          \<and> getSliceIndex_rev1 g p =
              Inr (if 0 < dotProduct (thirdColumn (orientation g)) (minus3D p (origins g ! c))
                   then c + 1 else c))"
proof -
  obtain o0 os where os: "origins g = o0 # os" using assms by (cases "origins g") auto
  let ?c = "closest_loop p (origins g) 0 (getDistance p o0) 0"
  have near: "firstNearest p (origins g) ?c"
    using closest_first [OF assms, of p] os by simp
  have v2: "getSliceIndex g p =
      Inr (if dotProduct (getNormal g) (minus3D p (origins g ! ?c)) < 0 then ?c + 1 else ?c)"
    by (simp add: getSliceIndex_def os Let_def)
  have v1: "getSliceIndex_rev1 g p =
      Inr (if 0 < dotProduct (getNormal g) (minus3D p (origins g ! ?c)) then ?c + 1 else ?c)"
    by (simp add: getSliceIndex_rev1_def os Let_def)
  have step2: "getSliceIndex g p = Inr ?c \<or> getSliceIndex g p = Inr (?c + 1)"
    unfolding v2 by simp
  have step1: "getSliceIndex_rev1 g p = Inr ?c \<or> getSliceIndex_rev1 g p = Inr (?c + 1)"
    unfolding v1 by simp
  have col: "getNormal g = thirdColumn (orientation g)"
    if "orientation g 2 0 = orientation g 0 2 \<and> orientation g 2 1 = orientation g 1 2"
    using that by (simp add: getNormal_def thirdColumn_def)
  have sign: "orientation g 2 0 = orientation g 0 2 \<and> orientation g 2 1 = orientation g 1 2 \<longrightarrow>
      getSliceIndex g p =
        Inr (if dotProduct (thirdColumn (orientation g)) (minus3D p (origins g ! ?c)) < 0
             then ?c + 1 else ?c)
      \<and> getSliceIndex_rev1 g p =
        Inr (if 0 < dotProduct (thirdColumn (orientation g)) (minus3D p (origins g ! ?c))
             then ?c + 1 else ?c)"
    using v1 v2 col by simp
  show ?thesis using near step2 step1 sign by blast
qed

lemma nearest_unique: "firstNearest p os c \<Longrightarrow> firstNearest p os d \<Longrightarrow> c = d"
  unfolding firstNearest_def
  by (metis linorder_neqE_nat not_less)

text \<open>
  With a negative dot product the first revision of part_003 keeps the position of the
  closest origin, where the revision of part_002 adds one.
\<close>

theorem getSliceIndex_rev1_counterexample:
  "dotProduct (getNormal g0) (minus3D (pt 0 0 (-1)) (origins g0 ! 0)) < 0
   \<and> getSliceIndex_rev1 g0 (pt 0 0 (-1)) = Inr 0
   \<and> getSliceIndex g0 (pt 0 0 (-1)) = Inr 1"
  by (simp add: getSliceIndex_rev1_def getSliceIndex_def g0_def newGeometry_def pt_def
      getNormal_def minus3D_def dotProduct_def getIdentityMat33_def)

text \<open>
  A point half way between two origins: the tie keeps position 0, and the two revisions
  answer 1 and 0.
\<close>

theorem getSliceIndex_nearest_witness:
  "origins g2 \<noteq> [] \<and> firstNearest (pt 0 0 1) (origins g2) 0
   \<and> orientation g2 2 0 = orientation g2 0 2 \<and> orientation g2 2 1 = orientation g2 1 2
   \<and> getSliceIndex g2 (pt 0 0 1) = Inr 1 \<and> getSliceIndex_rev1 g2 (pt 0 0 1) = Inr 0"
proof -
  have ne: "origins g2 \<noteq> []" by (simp add: g2_def)
  have d: "getDistance (pt 0 0 1) (pt 0 0 2) = 1" "getDistance (pt 0 0 1) (pt 0 0 0) = 1"
    by (simp_all add: getDistance_def pt_def)
  have fn: "firstNearest (pt 0 0 1) (origins g2) 0"
    by (simp add: firstNearest_def g2_def d less_Suc_eq)
  have sym: "orientation g2 2 0 = orientation g2 0 2 \<and> orientation g2 2 1 = orientation g2 1 2"
    by (simp add: g2_def getIdentityMat33_def)
  from getSliceIndex_nearest [OF ne, of "pt 0 0 1"] sym
  obtain c where c: "firstNearest (pt 0 0 1) (origins g2) c"
    "getSliceIndex g2 (pt 0 0 1) =
       Inr (if dotProduct (thirdColumn (orientation g2)) (minus3D (pt 0 0 1) (origins g2 ! c)) < 0
            then c + 1 else c)"
    "getSliceIndex_rev1 g2 (pt 0 0 1) =
       Inr (if 0 < dotProduct (thirdColumn (orientation g2)) (minus3D (pt 0 0 1) (origins g2 ! c))
            then c + 1 else c)"
    by blast
  have c0: "c = 0" using nearest_unique [OF c(1) fn] .
  have dp: "dotProduct (thirdColumn (orientation g2)) (minus3D (pt 0 0 1) (origins g2 ! 0)) = - 1"
    by (simp add: g2_def pt_def thirdColumn_def minus3D_def dotProduct_def getIdentityMat33_def)
  show ?thesis using ne fn sym c(2,3) unfolding c0 dp by simp
qed

text \<open>
  The vector that \<open>getSliceIndex\<close> reads, \<open>orientation.get(2, j)\<close>, is the third row.
  For the orientation with rows \<open>(1,0,0)\<close>, \<open>(0,0,1)\<close>, \<open>(0,-1,0)\<close> and the point
  \<open>(0,-1,0)\<close> the dot product with the third column is negative and the position of
  the closest origin is kept.
\<close>

lemma getSliceIndex_reads_third_row:
  "dotProduct (thirdColumn (orientation gR)) (minus3D (pt 0 (- 1) 0) (origins gR ! 0)) < 0
   \<and> getSliceIndex gR (pt 0 (- 1) 0) = Inr 0"
  by (simp add: getSliceIndex_def gR_def newGeometry_def pt_def thirdColumn_def getNormal_def
      minus3D_def dotProduct_def)

section \<open>Proofs: position propagation\<close>

lemma baseOffsetStep_ok:
  assumes "base \<noteq> None \<longrightarrow> base0 \<noteq> None"
  shows "\<exists>base0' base' cs h. baseOffsetStep position l i base0 base = Inr (base0', base', cs, h)
     \<and> (base' \<noteq> None \<longrightarrow> base0' \<noteq> None)
     \<and> (cs = [] \<and> \<not> h \<or> (\<exists>so po. cs = [SetBaseOffset i so po h]))"
  using assms
  by (auto simp: baseOffsetStep_def Let_def split: option.splits bool.splits)

lemma layerStep_ok:
  assumes "base \<noteq> None \<longrightarrow> base0 \<noteq> None"
  shows "\<exists>base0' base' cs. layerStep position index src l i base0 base = Inr (base0', base', cs)
     \<and> (base' \<noteq> None \<longrightarrow> base0' \<noteq> None)
     \<and> (\<forall>c \<in> set cs. callLayer c = Some i)
     \<and> redrawRule i cs
     \<and> (getId l \<noteq> src \<longrightarrow> SetCurrentPosition i (setCurrentPosition l position index) \<in> set cs)"
proof -
  from baseOffsetStep_ok [OF assms, of position l i]
  obtain base0' base' ocs h where b:
    "baseOffsetStep position l i base0 base = Inr (base0', base', ocs, h)"
    "base' \<noteq> None \<longrightarrow> base0' \<noteq> None"
    "ocs = [] \<and> \<not> h \<or> (\<exists>so po. ocs = [SetBaseOffset i so po h])"
    by blast
  let ?p = "getId l \<noteq> src \<and> setCurrentPosition l position index"
  let ?cs = "ocs @ (if getId l \<noteq> src then [SetCurrentPosition i ?p] else [])
               @ (if \<not> ?p \<and> h then [Draw i] else [])"
  have ls: "layerStep position index src l i base0 base = Inr (base0', base', ?cs)"
    by (simp add: layerStep_def b(1) Let_def)
  have "\<forall>c \<in> set ?cs. callLayer c = Some i" using b(3) by auto
  moreover have "redrawRule i ?cs" using b(3) by (auto simp: redrawRule_def)
  moreover have "getId l \<noteq> src \<longrightarrow> SetCurrentPosition i (setCurrentPosition l position index) \<in> set ?cs"
    by simp
  ultimately show ?thesis using ls b(2) by blast
qed

lemma redrawRule_append_left:
  assumes "\<forall>c \<in> set rest. callLayer c \<noteq> Some i"
  shows "redrawRule i (cs @ rest) \<longleftrightarrow> redrawRule i cs"
proof -
  have "c \<in> set (cs @ rest) \<longleftrightarrow> c \<in> set cs" if "callLayer c = Some i" for c
    using assms that by auto
  then show ?thesis by (simp add: redrawRule_def del: set_append)
qed

lemma redrawRule_append_right:
  assumes "\<forall>c \<in> set cs. callLayer c \<noteq> Some i"
  shows "redrawRule i (cs @ rest) \<longleftrightarrow> redrawRule i rest"
proof -
  have "c \<in> set (cs @ rest) \<longleftrightarrow> c \<in> set rest" if "callLayer c = Some i" for c
    using assms that by auto
  then show ?thesis by (simp add: redrawRule_def del: set_append)
qed

lemma layers_loop_ok:
  assumes "base \<noteq> None \<longrightarrow> base0 \<noteq> None"
  shows "\<exists>cs. layers_loop position index src ls i base0 base = Inr cs
     \<and> (\<forall>c \<in> set cs. \<exists>j. callLayer c = Some j \<and> i \<le> j \<and> j < i + length ls)
     \<and> (\<forall>k < length ls. redrawRule (i + k) cs
           \<and> (getId (ls ! k) \<noteq> src \<longrightarrow>
                SetCurrentPosition (i + k) (setCurrentPosition (ls ! k) position index) \<in> set cs))"
  using assms
proof (induction ls arbitrary: i base0 base)
  case Nil
  show ?case by simp
next
  case (Cons l ls)
  from layerStep_ok [OF Cons.prems, of position index src l i]
  obtain base0' base' cs where s:
    "layerStep position index src l i base0 base = Inr (base0', base', cs)"
    "base' \<noteq> None \<longrightarrow> base0' \<noteq> None"
    "\<forall>c \<in> set cs. callLayer c = Some i"
    "redrawRule i cs"
    "getId l \<noteq> src \<longrightarrow> SetCurrentPosition i (setCurrentPosition l position index) \<in> set cs"
    by blast
  from Cons.IH [OF s(2), of "Suc i"]
  obtain rest where r:
    "layers_loop position index src ls (Suc i) base0' base' = Inr rest"
    "\<forall>c \<in> set rest. \<exists>j. callLayer c = Some j \<and> Suc i \<le> j \<and> j < Suc i + length ls"
    "\<forall>k < length ls. redrawRule (Suc i + k) rest
         \<and> (getId (ls ! k) \<noteq> src \<longrightarrow>
              SetCurrentPosition (Suc i + k) (setCurrentPosition (ls ! k) position index) \<in> set rest)"
    by blast
  have run: "layers_loop position index src (l # ls) i base0 base = Inr (cs @ rest)"
    by (simp add: s(1) r(1))
  have range: "\<forall>c \<in> set (cs @ rest). \<exists>j. callLayer c = Some j \<and> i \<le> j \<and> j < i + length (l # ls)"
    using s(3) r(2) by fastforce
  have rest_not: "\<forall>c \<in> set rest. callLayer c \<noteq> Some i"
    using r(2) by fastforce
  have cs_not: "\<forall>c \<in> set cs. callLayer c \<noteq> Some (Suc i + k)" for k
    using s(3) by auto
  have each: "redrawRule (i + k) (cs @ rest)
       \<and> (getId ((l # ls) ! k) \<noteq> src \<longrightarrow>
            SetCurrentPosition (i + k) (setCurrentPosition ((l # ls) ! k) position index)
              \<in> set (cs @ rest))"
    if "k < length (l # ls)" for k
  proof (cases k)
    case 0
    then show ?thesis
      using s(4,5) redrawRule_append_left [OF rest_not, of cs] by simp
  next
    case (Suc k')
    then have "k' < length ls" using that by simp
    then show ?thesis
      using r(3) redrawRule_append_right [OF cs_not, of k' rest] Suc by simp
  qed
  show ?case using run range each by blast
qed

lemma showCrosshairDiv_cases:
  "showCrosshairDiv G position =
     (if layers G = [] then Inl TypeError else Inr [ShowCrosshairDiv position])"
  by (simp add: showCrosshairDiv_def split: list.split)

text \<open>
  Claim C4. A pass of \<open>updateLayersToPositionChange\<close> raises an error in one case only:
  the crosshair is shown and the group has no layer, so that no layer is there to
  refuse the position; no answer of a layer raises one. In every other pass each layer
  other than the source of the event is asked to move to the position. A layer whose
  \<open>setCurrentPosition\<close> returned false while its \<open>setBaseOffset\<close> returned true is
  drawn; a layer whose \<open>setCurrentPosition\<close> returned true is not drawn by the pass,
  nor is a layer without a \<open>setBaseOffset\<close> that returned true.
\<close>

theorem updateLayersToPositionChange_redraw:
  "(\<forall>e. updateLayersToPositionChange G ev = Inl e
         \<longleftrightarrow> e = TypeError \<and> showCrosshair G \<and> layers G = [])
   \<and> (\<not> (showCrosshair G \<and> layers G = []) \<longrightarrow>
        (\<exists>G' tr. updateLayersToPositionChange G ev = Inr (G', tr)
           \<and> (\<forall>i < length (layers G).
                (getId (layers G ! i) \<noteq> srclayerid ev \<longrightarrow>
                   SetCurrentPosition i
                     (setCurrentPosition (layers G ! i) (valuePosition ev) (valueIndex ev))
                     \<in> set tr)
              \<and> (\<forall>so po. SetCurrentPosition i False \<in> set tr
                     \<and> SetBaseOffset i so po True \<in> set tr \<longrightarrow> Draw i \<in> set tr)
              \<and> (SetCurrentPosition i True \<in> set tr \<longrightarrow> Draw i \<notin> set tr)
              \<and> ((\<forall>so po. SetBaseOffset i so po True \<notin> set tr) \<longrightarrow> Draw i \<notin> set tr))))"
proof -
  let ?pos = "valuePosition ev" and ?idx = "valueIndex ev"
  have "(None :: Point3D option) \<noteq> None \<longrightarrow> (None :: Point3D option) \<noteq> None" by simp
  from layers_loop_ok [OF this, of ?pos ?idx "srclayerid ev" "layers G" 0]
  obtain cs where cs:
    "layers_loop ?pos ?idx (srclayerid ev) (layers G) 0 None None = Inr cs"
    "\<forall>k < length (layers G). redrawRule k cs
        \<and> (getId (layers G ! k) \<noteq> srclayerid ev \<longrightarrow>
             SetCurrentPosition k (setCurrentPosition (layers G ! k) ?pos ?idx) \<in> set cs)"
    by auto
  let ?pre = "map RemoveListeners (viewLayerIndices (layers G))
              @ (if showCrosshair G then [ShowCrosshairDiv ?pos] else [])"
  let ?post = "map AddListeners (viewLayerIndices (layers G))"
  let ?tr = "?pre @ cs @ ?post"
  have fail: "updateLayersToPositionChange G ev = Inl TypeError"
    if "showCrosshair G \<and> layers G = []"
    using that by (simp add: updateLayersToPositionChange_def Let_def showCrosshairDiv_cases)
  have run: "updateLayersToPositionChange G ev = Inr (G\<lparr>currentPosition := Some ?pos\<rparr>, ?tr)"
    if "\<not> (showCrosshair G \<and> layers G = [])"
    using that
    by (auto simp: updateLayersToPositionChange_def Let_def showCrosshairDiv_cases cs(1))
  have err: "\<forall>e. updateLayersToPositionChange G ev = Inl e
         \<longleftrightarrow> e = TypeError \<and> showCrosshair G \<and> layers G = []"
  proof (cases "showCrosshair G \<and> layers G = []")
    case True
    then show ?thesis using fail by auto
  next
    case False
    then show ?thesis using run by auto
  qed
  have mem: "Draw i \<in> set ?tr \<longleftrightarrow> Draw i \<in> set cs"
    "SetCurrentPosition i r \<in> set ?tr \<longleftrightarrow> SetCurrentPosition i r \<in> set cs"
    "SetBaseOffset i so po r \<in> set ?tr \<longleftrightarrow> SetBaseOffset i so po r \<in> set cs"
    for i r so po
    by auto
  have rules: "\<forall>i < length (layers G).
          (getId (layers G ! i) \<noteq> srclayerid ev \<longrightarrow>
             SetCurrentPosition i (setCurrentPosition (layers G ! i) ?pos ?idx) \<in> set ?tr)
        \<and> (\<forall>so po. SetCurrentPosition i False \<in> set ?tr \<and> SetBaseOffset i so po True \<in> set ?tr
              \<longrightarrow> Draw i \<in> set ?tr)
        \<and> (SetCurrentPosition i True \<in> set ?tr \<longrightarrow> Draw i \<notin> set ?tr)
        \<and> ((\<forall>so po. SetBaseOffset i so po True \<notin> set ?tr) \<longrightarrow> Draw i \<notin> set ?tr)"
    unfolding mem using cs(2) unfolding redrawRule_def by blast
  show ?thesis
  proof (intro conjI impI)
    show "\<forall>e. updateLayersToPositionChange G ev = Inl e
         \<longleftrightarrow> e = TypeError \<and> showCrosshair G \<and> layers G = []"
      by (rule err)
  next
    assume "\<not> (showCrosshair G \<and> layers G = [])"
    from run [OF this] rules
    show "\<exists>G' tr. updateLayersToPositionChange G ev = Inr (G', tr)
           \<and> (\<forall>i < length (layers G).
                (getId (layers G ! i) \<noteq> srclayerid ev \<longrightarrow>
                   SetCurrentPosition i
                     (setCurrentPosition (layers G ! i) (valuePosition ev) (valueIndex ev))
                     \<in> set tr)
              \<and> (\<forall>so po. SetCurrentPosition i False \<in> set tr
                     \<and> SetBaseOffset i so po True \<in> set tr \<longrightarrow> Draw i \<in> set tr)
              \<and> (SetCurrentPosition i True \<in> set tr \<longrightarrow> Draw i \<notin> set tr)
              \<and> ((\<forall>so po. SetBaseOffset i so po True \<notin> set tr) \<longrightarrow> Draw i \<notin> set tr))"
      by blast
  qed
qed

text \<open>
  The pass on the group of three layers with the crosshair shown, for an event of the
  first layer: the second layer gets a base offset, refuses the position and is drawn;
  the draw layer accepts the position and is not drawn. On a group without layers and
  with the crosshair shown the pass raises.
\<close>

lemma G1x_run:
  "updateLayersToPositionChange G1x ev1 =
     Inr (G1x\<lparr>currentPosition := Some [1, 1, 2]\<rparr>,
          [RemoveListeners 0, RemoveListeners 1,
           ShowCrosshairDiv [1, 1, 2],
           SetBaseOffset 1 (pt 0 0 (- 1)) (pt 0 0 (- 1)) True,
           SetCurrentPosition 1 False, Draw 1,
           SetCurrentPosition 2 True,
           AddListeners 0, AddListeners 1])"
  by (simp add: updateLayersToPositionChange_def showCrosshairDiv_def G1x_def G1_def ev1_def
      mkLayer_def viewLayerIndices_def layerStep_def baseOffsetStep_def minus3D_def pt_def upt_rec
      Let_def)

lemma empty_group_crosshair_raises:
  "updateLayersToPositionChange (G1x\<lparr>layers := []\<rparr>) ev1 = Inl TypeError"
  by (simp add: updateLayersToPositionChange_def showCrosshairDiv_def G1x_def G1_def Let_def)

theorem updateLayersToPositionChange_redraw_witness:
  "\<not> (showCrosshair G1x \<and> layers G1x = [])
   \<and> (\<exists>G' tr. updateLayersToPositionChange G1x ev1 = Inr (G', tr)
      \<and> SetCurrentPosition 1 False \<in> set tr
      \<and> SetBaseOffset 1 (pt 0 0 (- 1)) (pt 0 0 (- 1)) True \<in> set tr
      \<and> Draw 1 \<in> set tr \<and> SetCurrentPosition 2 True \<in> set tr \<and> Draw 2 \<notin> set tr)"
proof -
  have ok: "\<not> (showCrosshair G1x \<and> layers G1x = [])" by (simp add: G1x_def G1_def)
  from updateLayersToPositionChange_redraw [of G1x ev1] ok
  obtain G' tr where r: "updateLayersToPositionChange G1x ev1 = Inr (G', tr)"
    and rule: "\<forall>i < length (layers G1x).
        (\<forall>so po. SetCurrentPosition i False \<in> set tr \<and> SetBaseOffset i so po True \<in> set tr
              \<longrightarrow> Draw i \<in> set tr)
        \<and> (SetCurrentPosition i True \<in> set tr \<longrightarrow> Draw i \<notin> set tr)"
    by blast
  have len: "1 < length (layers G1x)" "2 < length (layers G1x)" by (simp_all add: G1x_def G1_def)
  have m: "SetCurrentPosition 1 False \<in> set tr"
    "SetBaseOffset 1 (pt 0 0 (- 1)) (pt 0 0 (- 1)) True \<in> set tr"
    "SetCurrentPosition 2 True \<in> set tr"
    using r unfolding G1x_run by auto
  have "Draw 1 \<in> set tr" using rule len(1) m(1,2) by blast
  moreover have "Draw 2 \<notin> set tr" using rule len(2) m(3) by blast
  ultimately show ?thesis using ok r m by blast
qed

section \<open>Proofs: slice spacing\<close>

lemma sliceSpacing_loop_step:
  "sliceSpacing_loop L m (o1 # o2 # os) sp deltas =
     (if zDiff m o1 o2 = 0 then Inl ZeroSliceSpacing
      else (case sp of
              None \<Rightarrow> sliceSpacing_loop L m (o2 # os) (Some (zDiff m o1 o2)) deltas
            | Some s \<Rightarrow>
                if \<not> isSimilar L s (zDiff m o1 o2) (BIG_EPSILON L)
                then sliceSpacing_loop L m (o2 # os) sp (deltas @ [\<bar>s - zDiff m o1 o2\<bar>])
                else sliceSpacing_loop L m (o2 # os) sp deltas))"
  by (simp add: zDiff_def Let_def split: option.split)

lemma sliceSpacing_loop_short: "length os < 2 \<Longrightarrow> sliceSpacing_loop L m os sp deltas = Inr (sp, deltas)"
proof (cases os)
  case Nil
  then show ?thesis by simp
next
  case (Cons a as)
  assume "length os < 2"
  with Cons show ?thesis by (cases as) auto
qed

lemma zero_pair_Cons:
  "(\<exists>i. Suc i < length (o1 # o2 # os) \<and> zDiff m ((o1 # o2 # os) ! i) ((o1 # o2 # os) ! Suc i) = 0)
   \<longleftrightarrow> zDiff m o1 o2 = 0
       \<or> (\<exists>i. Suc i < length (o2 # os) \<and> zDiff m ((o2 # os) ! i) ((o2 # os) ! Suc i) = 0)"
  (is "?l \<longleftrightarrow> ?a \<or> ?r")
proof
  assume ?l
  then obtain i where i: "Suc i < length (o1 # o2 # os)"
    "zDiff m ((o1 # o2 # os) ! i) ((o1 # o2 # os) ! Suc i) = 0" by blast
  show "?a \<or> ?r"
  proof (cases i)
    case 0
    with i show ?thesis by simp
  next
    case (Suc j)
    with i have "Suc j < length (o2 # os) \<and> zDiff m ((o2 # os) ! j) ((o2 # os) ! Suc j) = 0"
      by simp
    then show ?thesis by blast
  qed
next
  assume "?a \<or> ?r"
  then show ?l
  proof
    assume ?a
    then have "Suc 0 < length (o1 # o2 # os) \<and> zDiff m ((o1 # o2 # os) ! 0) ((o1 # o2 # os) ! Suc 0) = 0"
      by simp
    then show ?l by blast
  next
    assume ?r
    then obtain j where "Suc j < length (o2 # os)" "zDiff m ((o2 # os) ! j) ((o2 # os) ! Suc j) = 0"
      by blast
    then have "Suc (Suc j) < length (o1 # o2 # os)
       \<and> zDiff m ((o1 # o2 # os) ! Suc j) ((o1 # o2 # os) ! Suc (Suc j)) = 0"
      by simp
    then show ?l by blast
  qed
qed

lemma sliceSpacing_loop_fails_iff:
  "(\<exists>e. sliceSpacing_loop L m os sp deltas = Inl e)
   \<longleftrightarrow> (\<exists>i. Suc i < length os \<and> zDiff m (os ! i) (os ! Suc i) = 0)"
proof (induction os arbitrary: sp deltas rule: induct_list012)
  case 1
  show ?case by simp
next
  case (2 x)
  show ?case by simp
next
  case (3 o1 o2 os)
  show ?case
    unfolding zero_pair_Cons sliceSpacing_loop_step
    by (simp add: "3.IH"(2) split: option.split)
qed

lemma sliceSpacing_loop_error_kind:
  "sliceSpacing_loop L m os sp deltas = Inl e \<Longrightarrow> e = ZeroSliceSpacing"
proof (induction os arbitrary: sp deltas rule: induct_list012)
  case 1
  then show ?case by simp
next
  case (2 x)
  then show ?case by simp
next
  case (3 o1 o2 os)
  from "3.prems" show ?case
    unfolding sliceSpacing_loop_step
    by (auto split: if_splits option.splits dest: "3.IH"(2))
qed

lemma sliceSpacing_loop_keeps_spacing:
  "sliceSpacing_loop L m os (Some s) deltas = Inr (r, ds) \<Longrightarrow> r = Some s"
proof (induction os arbitrary: deltas rule: induct_list012)
  case 1
  then show ?case by simp
next
  case (2 x)
  then show ?case by simp
next
  case (3 o1 o2 os)
  from "3.prems" show ?case
    unfolding sliceSpacing_loop_step
    by (auto split: if_splits dest: "3.IH"(2))
qed

lemma sliceSpacing_loop_first_diff:
  "sliceSpacing_loop L m (o1 # o2 # os) None deltas = Inr (r, ds) \<Longrightarrow> r = Some (zDiff m o1 o2)"
  unfolding sliceSpacing_loop_step
  by (auto split: if_splits dest: sliceSpacing_loop_keeps_spacing)


lemma sliceSpacing_loop_result:
  assumes nz: "\<forall>i. Suc i < length os \<longrightarrow> zDiff m (os ! i) (os ! Suc i) \<noteq> 0"
  shows "\<exists>r ds. sliceSpacing_loop L m os sp deltas = Inr (r, ds)"
proof (cases "sliceSpacing_loop L m os sp deltas")
  case (Inl e)
  then have "\<exists>e. sliceSpacing_loop L m os sp deltas = Inl e" by blast
  then show ?thesis using nz unfolding sliceSpacing_loop_fails_iff by blast
next
  case (Inr res)
  then show ?thesis by (cases res) simp
qed

lemma warnings_at_most_one:
  "getSliceGeometrySpacing L g = Inr (r, w) \<Longrightarrow> length w \<le> 1"
  by (auto simp: getSliceGeometrySpacing_def split: if_splits sum.splits prod.splits)

text \<open>
  Claim C5. With exactly one origin \<open>getSliceGeometrySpacing\<close> returns 1. With two or
  more origins it fails if and only if two adjacent origins have a zero distance along
  the z axis of the simplified inverse orientation, and the only failure is the zero
  slice spacing error; when no such distance is zero it returns the first distance
  with at most one warning, whether or not the distances are constant; when all
  distances equal a nonzero \<open>s\<close> it returns \<open>s\<close>.
\<close>

theorem getSliceGeometrySpacing_cases:
  "(length (origins g) = 1 \<longrightarrow> getSliceGeometrySpacing L g = Inr (Some 1, []))
   \<and> (2 \<le> length (origins g) \<longrightarrow>
        ((\<exists>e. getSliceGeometrySpacing L g = Inl e)
           \<longleftrightarrow> (\<exists>i. Suc i < length (origins g) \<and> sliceDiff L g i = 0))
        \<and> (\<forall>e. getSliceGeometrySpacing L g = Inl e \<longrightarrow> e = ZeroSliceSpacing)
        \<and> ((\<forall>i. Suc i < length (origins g) \<longrightarrow> sliceDiff L g i \<noteq> 0) \<longrightarrow>
              (\<exists>w. getSliceGeometrySpacing L g = Inr (Some (sliceDiff L g 0), w) \<and> length w \<le> 1))
        \<and> (\<forall>s. s \<noteq> 0 \<and> (\<forall>i. Suc i < length (origins g) \<longrightarrow> sliceDiff L g i = s) \<longrightarrow>
              (\<exists>w. getSliceGeometrySpacing L g = Inr (Some s, w))))"
proof (intro conjI impI)
  assume "length (origins g) = 1"
  then show "getSliceGeometrySpacing L g = Inr (Some 1, [])"
    by (simp add: getSliceGeometrySpacing_def)
next
  assume two: "2 \<le> length (origins g)"
  let ?m = "orientation2 L g"
  let ?loop = "sliceSpacing_loop L ?m (origins g) None []"
  have ne1: "length (origins g) \<noteq> 1" using two by simp
  have fail: "(\<exists>e. getSliceGeometrySpacing L g = Inl e) \<longleftrightarrow> (\<exists>e. ?loop = Inl e)"
    using ne1
    by (auto simp: getSliceGeometrySpacing_def orientation2_def split: sum.splits prod.splits)
  show iff: "(\<exists>e. getSliceGeometrySpacing L g = Inl e)
      \<longleftrightarrow> (\<exists>i. Suc i < length (origins g) \<and> sliceDiff L g i = 0)"
    unfolding fail sliceSpacing_loop_fails_iff sliceDiff_def ..
  show kind: "\<forall>e. getSliceGeometrySpacing L g = Inl e \<longrightarrow> e = ZeroSliceSpacing"
    using ne1
    by (auto simp: getSliceGeometrySpacing_def orientation2_def
        split: sum.splits prod.splits dest: sliceSpacing_loop_error_kind)
  show first: "\<exists>w. getSliceGeometrySpacing L g = Inr (Some (sliceDiff L g 0), w) \<and> length w \<le> 1"
    if nz: "\<forall>i. Suc i < length (origins g) \<longrightarrow> sliceDiff L g i \<noteq> 0"
  proof -
    obtain o1 o2 os where os: "origins g = o1 # o2 # os"
      using two by (cases "origins g"; cases "tl (origins g)") auto
    have "\<forall>i. Suc i < length (origins g) \<longrightarrow> zDiff ?m (origins g ! i) (origins g ! Suc i) \<noteq> 0"
      using nz by (simp add: sliceDiff_def)
    from sliceSpacing_loop_result [OF this, of L None "[]"]
    obtain r ds where l: "?loop = Inr (r, ds)" by blast
    then have r: "r = Some (zDiff ?m o1 o2)"
      using sliceSpacing_loop_first_diff [of L ?m o1 o2 os "[]" r ds] os by simp
    have "sliceDiff L g 0 = zDiff ?m o1 o2" by (simp add: sliceDiff_def os)
    then have "\<exists>w. getSliceGeometrySpacing L g = Inr (Some (sliceDiff L g 0), w)"
      using l r ne1 by (simp add: getSliceGeometrySpacing_def orientation2_def)
    then show ?thesis using warnings_at_most_one by blast
  qed
  show "\<forall>s. s \<noteq> 0 \<and> (\<forall>i. Suc i < length (origins g) \<longrightarrow> sliceDiff L g i = s) \<longrightarrow>
        (\<exists>w. getSliceGeometrySpacing L g = Inr (Some s, w))"
  proof (intro allI impI)
    fix s
    assume s: "s \<noteq> 0 \<and> (\<forall>i. Suc i < length (origins g) \<longrightarrow> sliceDiff L g i = s)"
    then have nz: "\<forall>i. Suc i < length (origins g) \<longrightarrow> sliceDiff L g i \<noteq> 0" by simp
    have "sliceDiff L g 0 = s" using s two by simp
    with first [OF nz] show "\<exists>w. getSliceGeometrySpacing L g = Inr (Some s, w)" by auto
  qed
qed

lemma g3_diff: "Suc i < length (origins g3) \<Longrightarrow> sliceDiff L0 g3 i = 2"
proof -
  assume "Suc i < length (origins g3)"
  then have "i = 0 \<or> i = 1" by (auto simp: g3_def)
  then show ?thesis
    by (auto simp: sliceDiff_def zDiff_def orientation2_def L0_def g3_def pt_def
        multiplyVector3D_def getIdentityMat33_def)
qed

text \<open>One origin gives 1; three origins two apart give 2.\<close>

theorem getSliceGeometrySpacing_cases_witness:
  "getSliceGeometrySpacing L0 g0 = Inr (Some 1, [])
   \<and> (\<exists>w. getSliceGeometrySpacing L0 g3 = Inr (Some 2, w))"
proof -
  have one: "length (origins g0) = 1" by (simp add: g0_def newGeometry_def)
  have two: "2 \<le> length (origins g3)" by (simp add: g3_def)
  have c: "(2::real) \<noteq> 0 \<and> (\<forall>i. Suc i < length (origins g3) \<longrightarrow> sliceDiff L0 g3 i = 2)"
    using g3_diff by simp
  show ?thesis
    using getSliceGeometrySpacing_cases [of g0 L0] getSliceGeometrySpacing_cases [of g3 L0]
      one two c by blast
qed

section \<open>Proofs: appending origins and frames\<close>

text \<open>
  Claim C6. \<open>appendFrame\<close> on the Geometry of size \<open>(4,4,2,1)\<close> increments the number
  of slices, at position 2, and leaves the number of frames, at position 3, unchanged.
\<close>

theorem appendFrame_increments_slices:
  "appendFrame g0 = Inr (g0\<lparr>size_g := [4, 4, 3, 1]\<rparr>)"
  by (simp add: appendFrame_def getAt_def g0_def newGeometry_def)

text \<open>\<open>appendOrigin\<close> increments the number of slices and nothing else of the Size.\<close>

lemma appendOrigin_size:
  assumes "appendOrigin g origin index = Inr g'"
  shows "size_g g' ! 2 = size_g g ! 2 + 1" and "length (size_g g') = length (size_g g)"
    and "\<forall>d < length (size_g g). d \<noteq> 2 \<longrightarrow> size_g g' ! d = size_g g ! d"
    and "newOrigins g'" and "length (origins g') = length (origins g) + 1"
    and "origins g' = splice_insert (origins g) index origin"
  using assms
  by (auto simp: appendOrigin_def getAt_def splice_insert_def Let_def split: if_splits)

section \<open>Proofs: equality of Geometries\<close>

lemma getSpacing_fresh: "\<not> newOrigins g \<Longrightarrow> getSpacing L g = Inr (spacing g, g)"
  by (simp add: getSpacing_def)

lemma equals_True_iff:
  "(\<exists>g' r'. equals L g (Some r) = Inr (True, g', r'))
   \<longleftrightarrow> (\<exists>a s g' r'. getOrigin g = Some a \<and> getOrigin r = Some a \<and> size_g g = size_g r
          \<and> getSpacing L g = Inr (s, g') \<and> getSpacing L r = Inr (s, r'))"
  by (auto simp: equals_def split: option.splits sum.splits prod.splits if_splits)

text \<open>
  Claim C7, as amended. \<open>equals\<close> answers true if and only if the origins that
  \<open>getOrigin\<close> returns (the last listed origin of each Geometry), the Sizes, and the
  Spacings that \<open>getSpacing\<close> returns are pairwise equal. The orientation is not
  compared: when neither Geometry has a pending recomputation of its slice spacing,
  the answer depends on the last origins, the Sizes and the stored Spacings only.
\<close>

theorem equals_compares:
  "((\<exists>g' r'. equals L g (Some r) = Inr (True, g', r'))
     \<longleftrightarrow> (\<exists>a s g' r'. getOrigin g = Some a \<and> getOrigin r = Some a \<and> size_g g = size_g r
            \<and> getSpacing L g = Inr (s, g') \<and> getSpacing L r = Inr (s, r')))
   \<and> (\<not> newOrigins g \<and> \<not> newOrigins r \<longrightarrow>
        ((\<exists>g' r'. equals L g (Some r) = Inr (True, g', r'))
          \<longleftrightarrow> origins g \<noteq> [] \<and> origins r \<noteq> [] \<and> last (origins g) = last (origins r)
              \<and> size_g g = size_g r \<and> spacing g = spacing r))"
proof (intro conjI impI)
  show "(\<exists>g' r'. equals L g (Some r) = Inr (True, g', r'))
     \<longleftrightarrow> (\<exists>a s g' r'. getOrigin g = Some a \<and> getOrigin r = Some a \<and> size_g g = size_g r
            \<and> getSpacing L g = Inr (s, g') \<and> getSpacing L r = Inr (s, r'))"
    by (rule equals_True_iff)
next
  assume "\<not> newOrigins g \<and> \<not> newOrigins r"
  then have sg: "getSpacing L g = Inr (spacing g, g)" and sr: "getSpacing L r = Inr (spacing r, r)"
    by (simp_all add: getSpacing_fresh)
  show "(\<exists>g' r'. equals L g (Some r) = Inr (True, g', r'))
          \<longleftrightarrow> origins g \<noteq> [] \<and> origins r \<noteq> [] \<and> last (origins g) = last (origins r)
              \<and> size_g g = size_g r \<and> spacing g = spacing r"
    unfolding equals_True_iff sg sr
    by (auto simp: getOrigin_def)
qed

text \<open>Two Geometries that differ in their orientation only are equal.\<close>

theorem equals_compares_witness:
  "\<not> newOrigins g0 \<and> \<not> newOrigins (g0\<lparr>orientation := (\<lambda>i j. 0)\<rparr>)
   \<and> (\<exists>g' r'. equals L0 g0 (Some (g0\<lparr>orientation := (\<lambda>i j. 0)\<rparr>)) = Inr (True, g', r'))"
proof -
  have n: "\<not> newOrigins g0 \<and> \<not> newOrigins (g0\<lparr>orientation := (\<lambda>i j. 0)\<rparr>)"
    by (simp add: g0_def newGeometry_def)
  let ?r = "g0\<lparr>orientation := (\<lambda>i j. 0)\<rparr>"
  from equals_compares [of L0 g0 ?r] n
  have "(\<exists>g' r'. equals L0 g0 (Some ?r) = Inr (True, g', r'))
      \<longleftrightarrow> origins g0 \<noteq> [] \<and> origins ?r \<noteq> [] \<and> last (origins g0) = last (origins ?r)
          \<and> size_g g0 = size_g ?r \<and> spacing g0 = spacing ?r"
    by blast
  moreover have "origins g0 \<noteq> [] \<and> origins ?r \<noteq> [] \<and> last (origins g0) = last (origins ?r)
          \<and> size_g g0 = size_g ?r \<and> spacing g0 = spacing ?r"
    by (simp add: g0_def newGeometry_def)
  ultimately show ?thesis using n by blast
qed

text \<open>
  Two Geometries with the same first origin, Size and Spacing, and different last
  origins, are not equal.
\<close>

theorem equals_first_origin_counterexample:
  "hd (origins gA) = hd (origins gB) \<and> size_g gA = size_g gB
   \<and> getSpacing L0 gA = Inr ([1, 1, 1], gA) \<and> getSpacing L0 gB = Inr ([1, 1, 1], gB)
   \<and> equals L0 gA (Some gB) = Inr (False, gA, Some gB)"
  by (simp add: equals_def getSpacing_def getOrigin_def gA_def gB_def pt_def)

section \<open>Proofs: fit scale\<close>

lemma getMaxSize_loop_fold:
  "getMaxSize_loop ls (mx, my) =
     (fold max (map (\<lambda>l. fst (getImageWorldSize l)) (filter isViewLayer ls)) mx,
      fold max (map (\<lambda>l. snd (getImageWorldSize l)) (filter isViewLayer ls)) my)"
proof (induction ls arbitrary: mx my)
  case Nil
  show ?case by simp
next
  case (Cons l ls)
  show ?case by (simp add: Cons.IH max_def not_less)
qed

lemma fold_max_pos:
  fixes xs :: "real list"
  assumes "xs \<noteq> []" and "\<forall>x \<in> set xs. 0 < x"
  shows "fold max xs 0 = Max (set xs)" and "0 < Max (set xs)"
proof -
  have "fold max xs 0 = Max (set (0 # xs))" by (simp only: Max.set_eq_fold)
  also have "\<dots> = max 0 (Max (set xs))" using assms(1) by simp
  finally have f: "fold max xs 0 = max 0 (Max (set xs))" .
  have "Max (set xs) \<in> set xs" using assms(1) by (intro Max_in) simp_all
  then show p: "0 < Max (set xs)" using assms(2) by blast
  then show "fold max xs 0 = Max (set xs)" using f by simp
qed

lemma getMaxSize_none: "filter isViewLayer (layers G) = [] \<Longrightarrow> getMaxSize G = None"
  by (simp add: getMaxSize_def getMaxSize_loop_fold)

lemma getMaxSize_pos:
  assumes v: "filter isViewLayer (layers G) \<noteq> []"
    and p: "\<forall>l \<in> set (layers G). isViewLayer l \<longrightarrow>
              0 < fst (getImageWorldSize l) \<and> 0 < snd (getImageWorldSize l)"
  shows "getMaxSize G = Some (maxRealWidth G, maxRealHeight G)"
    and "0 < maxRealWidth G" and "0 < maxRealHeight G"
proof -
  let ?ws = "map (\<lambda>l. fst (getImageWorldSize l)) (filter isViewLayer (layers G))"
  let ?hs = "map (\<lambda>l. snd (getImageWorldSize l)) (filter isViewLayer (layers G))"
  have w: "?ws \<noteq> []" "\<forall>x \<in> set ?ws. 0 < x" using v p by auto
  have h: "?hs \<noteq> []" "\<forall>x \<in> set ?hs. 0 < x" using v p by auto
  have fw: "fold max ?ws 0 = maxRealWidth G" and pw: "0 < maxRealWidth G"
    using fold_max_pos [OF w] by (simp_all add: maxRealWidth_def)
  have fh: "fold max ?hs 0 = maxRealHeight G" and ph: "0 < maxRealHeight G"
    using fold_max_pos [OF h] by (simp_all add: maxRealHeight_def)
  show "0 < maxRealWidth G" "0 < maxRealHeight G" by (rule pw, rule ph)
  show "getMaxSize G = Some (maxRealWidth G, maxRealHeight G)"
    using pw by (simp add: getMaxSize_def getMaxSize_loop_fold fw fh)
qed

text \<open>
  Claim C8, as amended. \<open>calculateFitScale\<close> throws exactly when both the width and
  the height of the container are zero, and throws nothing else. Otherwise it returns
  \<open>undefined\<close> when the group has no view layer, and when it has view layers, all of
  positive real-world width and height, the minimum of the container width over the
  largest width and the container height over the largest height.
\<close>

theorem calculateFitScale_cases:
  "(calculateFitScale G = Inl ZeroSizedContainer \<longleftrightarrow> offsetWidth G = 0 \<and> offsetHeight G = 0)
   \<and> (\<forall>e. calculateFitScale G = Inl e \<longrightarrow> e = ZeroSizedContainer)
   \<and> (\<not> (offsetWidth G = 0 \<and> offsetHeight G = 0) \<and> filter isViewLayer (layers G) = []
        \<longrightarrow> calculateFitScale G = Inr None)
   \<and> (\<not> (offsetWidth G = 0 \<and> offsetHeight G = 0) \<and> filter isViewLayer (layers G) \<noteq> []
        \<and> (\<forall>l \<in> set (layers G). isViewLayer l \<longrightarrow>
              0 < fst (getImageWorldSize l) \<and> 0 < snd (getImageWorldSize l))
        \<longrightarrow> calculateFitScale G =
              Inr (Some (Finite (min (offsetWidth G / maxRealWidth G)
                                     (offsetHeight G / maxRealHeight G)))))"
proof (intro conjI impI allI)
  show "calculateFitScale G = Inl ZeroSizedContainer \<longleftrightarrow> offsetWidth G = 0 \<and> offsetHeight G = 0"
    by (auto simp: calculateFitScale_def split: option.splits)
next
  fix e assume "calculateFitScale G = Inl e"
  then show "e = ZeroSizedContainer"
    by (auto simp: calculateFitScale_def split: option.splits if_splits)
next
  assume "\<not> (offsetWidth G = 0 \<and> offsetHeight G = 0) \<and> filter isViewLayer (layers G) = []"
  then show "calculateFitScale G = Inr None"
    by (auto simp: calculateFitScale_def getMaxSize_none)
next
  assume a: "\<not> (offsetWidth G = 0 \<and> offsetHeight G = 0) \<and> filter isViewLayer (layers G) \<noteq> []
        \<and> (\<forall>l \<in> set (layers G). isViewLayer l \<longrightarrow>
              0 < fst (getImageWorldSize l) \<and> 0 < snd (getImageWorldSize l))"
  then have v: "filter isViewLayer (layers G) \<noteq> []"
    and p: "\<forall>l \<in> set (layers G). isViewLayer l \<longrightarrow>
              0 < fst (getImageWorldSize l) \<and> 0 < snd (getImageWorldSize l)"
    by simp_all
  note m = getMaxSize_pos [OF v p]
  have nz: "maxRealWidth G \<noteq> 0" "maxRealHeight G \<noteq> 0" using m(2,3) by simp_all
  show "calculateFitScale G =
          Inr (Some (Finite (min (offsetWidth G / maxRealWidth G)
                                 (offsetHeight G / maxRealHeight G))))"
    using a nz by (auto simp: calculateFitScale_def m(1) js_div_def)
qed

lemma G1_max: "maxRealWidth G1 = 100" "maxRealHeight G1 = 100"
  by (simp_all add: maxRealWidth_def maxRealHeight_def G1_def mkLayer_def)

text \<open>A container of 200 by 100 and a largest real-world size of 100 by 100: scale 1.\<close>

theorem calculateFitScale_cases_witness:
  "calculateFitScale G1 = Inr (Some (Finite 1))"
proof -
  have c: "\<not> (offsetWidth G1 = 0 \<and> offsetHeight G1 = 0) \<and> filter isViewLayer (layers G1) \<noteq> []
        \<and> (\<forall>l \<in> set (layers G1). isViewLayer l \<longrightarrow>
              0 < fst (getImageWorldSize l) \<and> 0 < snd (getImageWorldSize l))"
    by (simp add: G1_def mkLayer_def)
  have "min (offsetWidth G1 / maxRealWidth G1) (offsetHeight G1 / maxRealHeight G1) = 1"
    by (simp add: G1_max) (simp add: G1_def)
  then show ?thesis using calculateFitScale_cases [of G1] c by simp
qed

text \<open>A container of width 0 and height 100 has no area; the call returns the scale 0.\<close>

theorem calculateFitScale_zero_width_counterexample:
  "offsetWidth Gz * offsetHeight Gz = 0 \<and> calculateFitScale Gz = Inr (Some (Finite 0))"
  by (simp add: calculateFitScale_def getMaxSize_def Gz_def G1_def mkLayer_def js_div_def)

section \<open>Proofs: view orientation\<close>

text \<open>
  Claim C9. Without a target orientation \<open>getViewOrientation\<close> returns the identity
  matrix; with one it returns the component-wise absolute value of the product of the
  inverse of the simplified image orientation and the target orientation. In
  particular an identity image orientation without target gives the identity.
\<close>

theorem getViewOrientation_cases:
  "getViewOrientation L imageOrientation None = getIdentityMat33
   \<and> getViewOrientation L imageOrientation (Some t)
       = getAbs (multiply (getInverse L (asOneAndZeros L imageOrientation)) t)
   \<and> (\<forall>i j. getViewOrientation L imageOrientation (Some t) i j
         = \<bar>getInverse L (asOneAndZeros L imageOrientation) i 0 * t 0 j
            + getInverse L (asOneAndZeros L imageOrientation) i 1 * t 1 j
            + getInverse L (asOneAndZeros L imageOrientation) i 2 * t 2 j\<bar>)
   \<and> getViewOrientation L getIdentityMat33 None = getIdentityMat33"
  by (simp add: getViewOrientation_def getAbs_def multiply_def getIdentityMat33_def fun_eq_iff)

section \<open>Proofs: scaled offset\<close>

text \<open>
  Claim C10, as amended. When all components of the previous scale and of the new scale
  are nonzero, \<open>getScaledOffset\<close> returns an offset under which the index center
  \<open>(center - offset) * scale\<close> has the same world point, the center itself, as under
  the previous scale and offset.
\<close>

theorem getScaledOffset_keeps_center:
  assumes "fst scale \<noteq> 0" "snd scale \<noteq> 0" "fst newScale \<noteq> 0" "snd newScale \<noteq> 0"
  shows "\<exists>newOffset. getScaledOffset offset scale newScale center = Inr newOffset
     \<and> worldPoint ((fst center - fst offset) * fst scale) (fst newScale) (fst newOffset)
         = Finite (fst center)
     \<and> worldPoint ((fst center - fst offset) * fst scale) (fst scale) (fst offset)
         = Finite (fst center)
     \<and> worldPoint ((snd center - snd offset) * snd scale) (snd newScale) (snd newOffset)
         = Finite (snd center)
     \<and> worldPoint ((snd center - snd offset) * snd scale) (snd scale) (snd offset)
         = Finite (snd center)"
  using assms by (simp add: getScaledOffset_def worldPoint_def js_div_def Let_def)

text \<open>Offset \<open>(1,2)\<close>, scale \<open>(2,2)\<close>, new scale \<open>(4,1)\<close>, center \<open>(3,3)\<close>.\<close>

theorem getScaledOffset_keeps_center_witness:
  "getScaledOffset (1, 2) (2, 2) (4, 1) (3, 3) = Inr (2, 1)
   \<and> worldPoint ((3 - 1) * 2) 4 2 = Finite 3 \<and> worldPoint ((3 - 1) * 2) 2 1 = Finite 3
   \<and> worldPoint ((3 - 2) * 2) 1 1 = Finite 3 \<and> worldPoint ((3 - 2) * 2) 2 2 = Finite 3"
proof -
  have e: "getScaledOffset (1, 2) (2, 2) (4, 1) (3, 3) = Inr (2, 1)"
    by (simp add: getScaledOffset_def)
  from getScaledOffset_keeps_center [of "(2, 2)" "(4, 1)" "(1, 2)" "(3, 3)"]
  obtain n where n: "getScaledOffset (1, 2) (2, 2) (4, 1) (3, 3) = Inr n"
    "worldPoint ((3 - 1) * 2) 4 (fst n) = Finite 3" "worldPoint ((3 - 1) * 2) 2 1 = Finite 3"
    "worldPoint ((3 - 2) * 2) 1 (snd n) = Finite 3" "worldPoint ((3 - 2) * 2) 2 2 = Finite 3"
    by auto
  from n(1) e have "n = (2, 1)" by simp
  with n e show ?thesis by simp
qed

text \<open>
  With a zero component in the previous scale the world point of the index center under
  the previous transform is \<open>0 / 0\<close>, not the center.
\<close>

theorem getScaledOffset_zero_scale_counterexample:
  "getScaledOffset (0, 0) (0, 1) (1, 1) (1, 1) = Inr (1, 0)
   \<and> worldPoint ((1 - 0) * 0) 1 1 = Finite 1
   \<and> worldPoint ((1 - 0) * 0) 0 0 = NaN"
  by (simp add: getScaledOffset_def worldPoint_def js_div_def)

end
